theory Spec2Isabelle
  imports Complex_Main
begin

section \<open>JavaScript numbers\<close>

text \<open>
  A JavaScript number is modelled as an exact real, or one of the three special values
  of IEEE 754 arithmetic. Rounding and overflow are not modelled, and there is a single
  zero, which divides like \<open>+0\<close>. On these values every operation below yields
  \<open>NaN\<close> and the infinities where the JavaScript operation does: a division by zero,
  a square root of a negative number, an arc sine outside \<open>[-1, 1]\<close>, a sine or
  cosine of an infinity, \<open>Infinity - Infinity\<close>, \<open>0 * Infinity\<close>.
  The value of a finite operation is the exact one where the program has the rounded
  one. The theorems on the methods are therefore stated over what the operations return
  and use no fact on their values; the exact value is used only to evaluate the default
  unit, far from every threshold.
\<close>

datatype jsnum = Num real | PosInf | NegInf | NaN


fun jneg :: "jsnum \<Rightarrow> jsnum" where
  "jneg (Num x) = Num (- x)"
| "jneg PosInf = NegInf"
| "jneg NegInf = PosInf"
| "jneg NaN = NaN"

fun jadd :: "jsnum \<Rightarrow> jsnum \<Rightarrow> jsnum" where
  "jadd (Num x) (Num y) = Num (x + y)"
| "jadd NaN v = NaN"
| "jadd u NaN = NaN"
| "jadd PosInf NegInf = NaN"
| "jadd NegInf PosInf = NaN"
| "jadd PosInf v = PosInf"
| "jadd NegInf v = NegInf"
| "jadd u PosInf = PosInf"
| "jadd u NegInf = NegInf"

definition jsub :: "jsnum \<Rightarrow> jsnum \<Rightarrow> jsnum" where
  "jsub u v = jadd u (jneg v)"

fun jmul :: "jsnum \<Rightarrow> jsnum \<Rightarrow> jsnum" where
  "jmul (Num x) (Num y) = Num (x * y)"
| "jmul NaN v = NaN"
| "jmul u NaN = NaN"
| "jmul (Num x) PosInf = (if x = 0 then NaN else if 0 < x then PosInf else NegInf)"
| "jmul (Num x) NegInf = (if x = 0 then NaN else if 0 < x then NegInf else PosInf)"
| "jmul PosInf (Num y) = (if y = 0 then NaN else if 0 < y then PosInf else NegInf)"
| "jmul NegInf (Num y) = (if y = 0 then NaN else if 0 < y then NegInf else PosInf)"
| "jmul PosInf PosInf = PosInf"
| "jmul PosInf NegInf = NegInf"
| "jmul NegInf PosInf = NegInf"
| "jmul NegInf NegInf = PosInf"

fun jdiv :: "jsnum \<Rightarrow> jsnum \<Rightarrow> jsnum" where
  "jdiv (Num x) (Num y) =
     (if y = 0 then (if x = 0 then NaN else if 0 < x then PosInf else NegInf)
      else Num (x / y))"
| "jdiv NaN v = NaN"
| "jdiv u NaN = NaN"
| "jdiv (Num x) v = Num 0"
| "jdiv PosInf (Num y) = (if y < 0 then NegInf else PosInf)"
| "jdiv NegInf (Num y) = (if y < 0 then PosInf else NegInf)"
| "jdiv u v = NaN"

text \<open>\<open>x ** 2\<close>\<close>

fun jpow2 :: "jsnum \<Rightarrow> jsnum" where
  "jpow2 (Num x) = Num (x\<^sup>2)"
| "jpow2 PosInf = PosInf"
| "jpow2 NegInf = PosInf"
| "jpow2 NaN = NaN"

text \<open>\<open>Math.sqrt\<close>, \<open>Math.sin\<close>, \<open>Math.cos\<close>, \<open>Math.asin\<close>, \<open>Math.abs\<close>\<close>

fun jsqrt :: "jsnum \<Rightarrow> jsnum" where
  "jsqrt (Num x) = (if x < 0 then NaN else Num (sqrt x))"
| "jsqrt PosInf = PosInf"
| "jsqrt NegInf = NaN"
| "jsqrt NaN = NaN"

fun jsin :: "jsnum \<Rightarrow> jsnum" where
  "jsin (Num x) = Num (sin x)"
| "jsin u = NaN"

fun jcos :: "jsnum \<Rightarrow> jsnum" where
  "jcos (Num x) = Num (cos x)"
| "jcos u = NaN"

fun jasin :: "jsnum \<Rightarrow> jsnum" where
  "jasin (Num x) = (if - 1 \<le> x \<and> x \<le> 1 then Num (arcsin x) else NaN)"
| "jasin u = NaN"

fun jabs :: "jsnum \<Rightarrow> jsnum" where
  "jabs (Num x) = Num \<bar>x\<bar>"
| "jabs PosInf = PosInf"
| "jabs NegInf = PosInf"
| "jabs NaN = NaN"

text \<open>The comparisons \<open><\<close>, \<open><=\<close> and \<open>>\<close>: false as soon as one side is \<open>NaN\<close>.\<close>

fun jlt :: "jsnum \<Rightarrow> jsnum \<Rightarrow> bool" where
  "jlt (Num x) (Num y) = (x < y)"
| "jlt NaN v = False"
| "jlt u NaN = False"
| "jlt PosInf v = False"
| "jlt u NegInf = False"
| "jlt u v = True"

fun jle :: "jsnum \<Rightarrow> jsnum \<Rightarrow> bool" where
  "jle (Num x) (Num y) = (x \<le> y)"
| "jle NaN v = False"
| "jle u NaN = False"
| "jle NegInf v = True"
| "jle u PosInf = True"
| "jle u v = False"

definition jgt :: "jsnum \<Rightarrow> jsnum \<Rightarrow> bool" where
  "jgt u v = jlt v u"

text \<open>\<open>Math.max\<close> and \<open>Math.min\<close> of two arguments: \<open>NaN\<close> if either is.\<close>

fun jmax :: "jsnum \<Rightarrow> jsnum \<Rightarrow> jsnum" where
  "jmax NaN v = NaN"
| "jmax u NaN = NaN"
| "jmax u v = (if jlt u v then v else u)"


definition jPI :: jsnum where
  "jPI = Num pi"

text \<open>
  A property of the parameter object is a number or missing (\<open>undefined\<close>, modelled
  as \<open>None\<close>). \<open>v || dflt\<close> yields \<open>v\<close> when it is truthy; \<open>undefined\<close>, zero and
  \<open>NaN\<close> are falsy.
\<close>

fun truthy :: "jsnum \<Rightarrow> bool" where
  "truthy (Num x) = (x \<noteq> 0)"
| "truthy NaN = False"
| "truthy u = True"

fun js_or :: "jsnum option \<Rightarrow> jsnum \<Rightarrow> jsnum" where
  "js_or None dflt = dflt"
| "js_or (Some v) dflt = (if truthy v then v else dflt)"

section \<open>The class KreslingModel\<close>

text \<open>
  An instance is a record of its fields. A method that assigns a field takes the
  instance and returns it updated, next to its result.
\<close>

text \<open>A fold state \<open>{ h, phi }\<close>, and the object \<open>{ state1, state2 }\<close> whose
  members are a fold state or \<open>null\<close>.\<close>

record state =
  h :: jsnum
  phi :: jsnum

record stable_states =
  state1 :: "state option"
  state2 :: "state option"

text \<open>The fields of an instance; \<open>stableStates\<close> is the field \<open>_stableStates\<close>,
  \<open>None\<close> when it is \<open>null\<close>.\<close>

record KreslingModel =
  n :: jsnum
  a :: jsnum
  b :: jsnum
  c :: jsnum
  beta :: jsnum
  d :: jsnum
  r :: jsnum
  R :: jsnum
  EA :: jsnum
  km :: jsnum
  kv :: jsnum
  stableStates :: "stable_states option"

text \<open>The argument \<open>params\<close> of the constructor.\<close>

record params =
  p_n :: "jsnum option"
  p_a :: "jsnum option"
  p_b :: "jsnum option"
  p_c :: "jsnum option"
  p_beta :: "jsnum option"
  p_EA :: "jsnum option"

text \<open>\<open>new KreslingModel()\<close> passes the empty object.\<close>

definition no_params :: params where
  "no_params = \<lparr>p_n = None, p_a = None, p_b = None, p_c = None, p_beta = None, p_EA = None\<rparr>"

text \<open>The three derived assignments, shared by the constructor and
  \<open>updateModelParameter\<close>, which repeats them word for word.\<close>

definition valleyLength :: "jsnum \<Rightarrow> jsnum \<Rightarrow> jsnum \<Rightarrow> jsnum" where
  "valleyLength b' c' beta' =
     jsqrt (jsub (jadd (jpow2 b') (jpow2 c'))
                 (jmul (jmul (jmul (Num 2) b') c') (jcos beta')))"

definition circumradius :: "jsnum \<Rightarrow> jsnum \<Rightarrow> jsnum" where
  "circumradius e n' = jdiv e (jmul (Num 2) (jsin (jdiv jPI n')))"

definition constructor :: "params \<Rightarrow> KreslingModel" where
  "constructor ps =
     (let n' = js_or (p_n ps) (Num 6);
          a' = js_or (p_a ps) (Num 1);
          b' = js_or (p_b ps) (Num 2);
          c' = js_or (p_c ps) (Num 3);
          beta' = js_or (p_beta ps) (Num (3 / 2));
          d' = valleyLength b' c' beta';
          r' = circumradius a' n';
          R' = circumradius b' n';
          EA' = js_or (p_EA ps) (Num 1)
      in \<lparr>n = n', a = a', b = b', c = c', beta = beta', d = d', r = r', R = R',
          EA = EA', km = jdiv EA' c', kv = jdiv EA' d', stableStates = None\<rparr>)"

text \<open>\<open>new KreslingModel()\<close>, as the controller creates and resets its model.\<close>

definition defaultModel :: KreslingModel where
  "defaultModel = constructor no_params"

record crease_lengths =
  cTilde :: jsnum
  dTilde :: jsnum

definition computeCreaseLength :: "KreslingModel \<Rightarrow> jsnum \<Rightarrow> jsnum \<Rightarrow> crease_lengths" where
  "computeCreaseLength m h' phi' =
     \<lparr>cTilde = jsqrt (jsub (jadd (jadd (jpow2 h') (jpow2 (r m))) (jpow2 (R m)))
                           (jmul (jmul (jmul (Num 2) (r m)) (R m)) (jcos phi'))),
      dTilde = jsqrt (jsub (jadd (jadd (jpow2 h') (jpow2 (r m))) (jpow2 (R m)))
                           (jmul (jmul (jmul (Num 2) (r m)) (R m))
                                 (jcos (jadd phi' (jdiv (jmul (Num 2) jPI) (n m))))))\<rparr>"

definition computeEnergy :: "KreslingModel \<Rightarrow> jsnum \<Rightarrow> jsnum \<Rightarrow> jsnum" where
  "computeEnergy m h' phi' =
     (let cl = computeCreaseLength m h' phi'
      in jadd (jdiv (jmul (jmul (n m) (km m)) (jpow2 (jsub (cTilde cl) (c m)))) (Num 2))
              (jdiv (jmul (jmul (n m) (kv m)) (jpow2 (jsub (dTilde cl) (d m)))) (Num 2)))"




text \<open>The expression bound to \<open>lambda\<close> in \<open>findStableStates\<close> and again in
  \<open>calculatePhase\<close>.\<close>

definition lambda :: "KreslingModel \<Rightarrow> jsnum" where
  "lambda m =
     jmul (jdiv (jsub (b m) (jmul (jmul (Num 2) (c m)) (jcos (beta m)))) (a m))
          (jsin (jdiv jPI (n m)))"

text \<open>\<open>findStableStates\<close> returns its result and leaves it in the cache: the
  instance after the call is the second component.\<close>

definition findStableStates :: "KreslingModel \<Rightarrow> stable_states \<times> KreslingModel" where
  "findStableStates m =
     (case stableStates m of
        Some cached \<Rightarrow> (cached, m)
      | None \<Rightarrow>
         (let lam = lambda m;
              st1 = (if jle (jabs lam) (Num 1) then
                       (let phi1 = jsub (jasin lam) (jdiv jPI (n m));
                            h1 = jsqrt (jmax (Num 0)
                                   (jadd (jsub (jsub (jpow2 (c m)) (jpow2 (r m))) (jpow2 (R m)))
                                         (jmul (jmul (jmul (Num 2) (r m)) (R m)) (jcos phi1))))
                        in Some \<lparr>h = h1, phi = phi1\<rparr>)
                     else None);
              st2 = (if jle (jabs lam) (Num 1) then
                       (let phi2 = jsub (jsub jPI (jasin lam)) (jdiv jPI (n m));
                            h2 = jsqrt (jmax (Num 0)
                                   (jadd (jsub (jsub (jpow2 (c m)) (jpow2 (r m))) (jpow2 (R m)))
                                         (jmul (jmul (jmul (Num 2) (r m)) (R m)) (jcos phi2))))
                        in Some \<lparr>h = h2, phi = phi2\<rparr>)
                     else None);
              res = \<lparr>state1 = st1, state2 = st2\<rparr>
          in (res, m\<lparr>stableStates := Some res\<rparr>)))"

definition isBistable :: "KreslingModel \<Rightarrow> bool \<times> KreslingModel" where
  "isBistable m =
     (case findStableStates m of
        (res, m') \<Rightarrow> (state1 res \<noteq> None \<and> state2 res \<noteq> None, m'))"

definition calculatePhase :: "KreslingModel \<Rightarrow> string \<times> KreslingModel" where
  "calculatePhase m =
     (case findStableStates m of
        (res, m') \<Rightarrow>
          (case (state1 res, state2 res) of
             (Some s1, Some s2) \<Rightarrow>
               (let lam = lambda m' in
                if jgt (jabs lam) (Num 1) then (''monostable'', m')
                else
                  (let phi0 = jsub (jdiv jPI (Num 2)) (jdiv jPI (n m'));
                       cfs = jsqrt (jadd (jadd (jpow2 (r m')) (jpow2 (R m')))
                                         (jmul (jmul (jmul (Num 2) (r m')) (R m'))
                                               (jcos (jdiv (jmul (Num 2) jPI) (n m')))))
                   in if jgt (c m') cfs then (''bistable-zero-energy'', m')
                      else if jle (phi s1) phi0 \<and> jle phi0 (phi s2)
                      then (''bistable-zero-energy'', m')
                      else (''bistable-nonzero-energy'', m')))
           | _ \<Rightarrow> (''monostable'', m')))"

section \<open>The controller's parameter update\<close>

text \<open>
  \<open>this.model[param] = value\<close>: the property is named by a string. The names of the
  eleven numeric fields are modelled; any other name leaves these fields as they are.
  The controller passes \<open>n\<close>, \<open>a\<close>, \<open>b\<close>, \<open>c\<close> and \<open>beta\<close> only; the name
  \<open>_stableStates\<close>, which would overwrite the cache with a number, is not covered.
\<close>

definition assignField :: "KreslingModel \<Rightarrow> string \<Rightarrow> jsnum \<Rightarrow> KreslingModel" where
  "assignField m param v =
     (if param = ''n'' then m\<lparr>n := v\<rparr>
      else if param = ''a'' then m\<lparr>a := v\<rparr>
      else if param = ''b'' then m\<lparr>b := v\<rparr>
      else if param = ''c'' then m\<lparr>c := v\<rparr>
      else if param = ''beta'' then m\<lparr>beta := v\<rparr>
      else if param = ''d'' then m\<lparr>d := v\<rparr>
      else if param = ''r'' then m\<lparr>r := v\<rparr>
      else if param = ''R'' then m\<lparr>R := v\<rparr>
      else if param = ''EA'' then m\<lparr>EA := v\<rparr>
      else if param = ''km'' then m\<lparr>km := v\<rparr>
      else if param = ''kv'' then m\<lparr>kv := v\<rparr>
      else m)"

text \<open>\<open>updateModel\<close> redraws the view, the state panel and the chart; what it does
  to the instance is the call of \<open>findStableStates\<close> they make. The drawing itself
  is not part of this development and is taken to return.\<close>

definition updateModel :: "KreslingModel \<Rightarrow> KreslingModel" where
  "updateModel m = snd (findStableStates m)"

text \<open>The instance after the five recalculations and the clearing of the cache.\<close>

definition recalculate :: "KreslingModel \<Rightarrow> KreslingModel" where
  "recalculate m =
     (let m1 = m\<lparr>d := valleyLength (b m) (c m) (beta m)\<rparr>;
          m2 = m1\<lparr>r := circumradius (a m1) (n m1)\<rparr>;
          m3 = m2\<lparr>R := circumradius (b m2) (n m2)\<rparr>;
          m4 = m3\<lparr>km := jdiv (EA m3) (c m3)\<rparr>;
          m5 = m4\<lparr>kv := jdiv (EA m4) (d m4)\<rparr>
      in m5\<lparr>stableStates := None\<rparr>)"

definition updateModelParameter :: "KreslingModel \<Rightarrow> string \<Rightarrow> jsnum \<Rightarrow> KreslingModel" where
  "updateModelParameter m param v =
     (let m1 = assignField m param v;
          m2 = (if param \<in> set [''a'', ''b'', ''c'', ''beta'', ''n'']
                then recalculate m1 else m1)
      in updateModel m2)"

section \<open>Invariants of an instance\<close>

text \<open>The derived fields hold what the constructor and \<open>updateModelParameter\<close>
  assign to them from the current basic fields.\<close>

definition derivedInSync :: "KreslingModel \<Rightarrow> bool" where
  "derivedInSync m \<longleftrightarrow>
     d m = valleyLength (b m) (c m) (beta m) \<and>
     r m = circumradius (a m) (n m) \<and>
     R m = circumradius (b m) (n m) \<and>
     km m = jdiv (EA m) (c m) \<and>
     kv m = jdiv (EA m) (d m)"

text \<open>The cache is empty, or holds what \<open>findStableStates\<close> computes from the
  current fields.\<close>

definition cacheCurrent :: "KreslingModel \<Rightarrow> bool" where
  "cacheCurrent m \<longleftrightarrow>
     (case stableStates m of
        None \<Rightarrow> True
      | Some cached \<Rightarrow> cached = fst (findStableStates (m\<lparr>stableStates := None\<rparr>)))"

section \<open>The closed form of the stable states\<close>

text \<open>
  The pair that section 4.1 of the specification describes, written from its words over
  the fields of an instance: \<open>lambda = ((b - 2 c cos(beta)) / a) sin(pi / n)\<close>; if
  \<open>|lambda| <= 1\<close> then \<open>phi1 = asin(lambda) - pi / n\<close>,
  \<open>h1 = sqrt(max(0, c^2 - r^2 - R^2 + 2 r R cos(phi1)))\<close>,
  \<open>phi2 = pi - asin(lambda) - pi / n\<close>,
  \<open>h2 = sqrt(max(0, c^2 - r^2 - R^2 + 2 r R cos(phi2)))\<close>, else both states are
  absent. It reads no cache; \<open>findStableStates\<close> is compared with it.
\<close>

definition closedFormStates :: "KreslingModel \<Rightarrow> stable_states" where
  "closedFormStates m =
     (if jle (jabs (lambda m)) (Num 1) then
        \<lparr>state1 = Some \<lparr>h = jsqrt (jmax (Num 0)
                    (jadd (jsub (jsub (jpow2 (c m)) (jpow2 (r m))) (jpow2 (R m)))
                          (jmul (jmul (jmul (Num 2) (r m)) (R m))
                                (jcos (jsub (jasin (lambda m)) (jdiv jPI (n m))))))),
                   phi = jsub (jasin (lambda m)) (jdiv jPI (n m))\<rparr>,
         state2 = Some \<lparr>h = jsqrt (jmax (Num 0)
                    (jadd (jsub (jsub (jpow2 (c m)) (jpow2 (r m))) (jpow2 (R m)))
                          (jmul (jmul (jmul (Num 2) (r m)) (R m))
                                (jcos (jsub (jsub jPI (jasin (lambda m))) (jdiv jPI (n m))))))),
                   phi = jsub (jsub jPI (jasin (lambda m))) (jdiv jPI (n m))\<rparr>\<rparr>
      else \<lparr>state1 = None, state2 = None\<rparr>)"

section \<open>Arithmetic on finite numbers\<close>

lemma jsub_Num [simp]: "jsub (Num x) (Num y) = Num (x - y)"
  by (simp add: jsub_def)



lemma radicand_nonneg:
  fixes x u v t :: real
  shows "0 \<le> x\<^sup>2 + u\<^sup>2 + v\<^sup>2 - 2 * u * v * cos t"
proof -
  have "\<bar>u * v * cos t\<bar> \<le> \<bar>u * v\<bar>"
    using abs_cos_le_one[of t] by (simp add: abs_mult mult_left_le)
  moreover have "2 * \<bar>u * v\<bar> \<le> u\<^sup>2 + v\<^sup>2"
    using zero_le_power2[of "\<bar>u\<bar> - \<bar>v\<bar>"] by (simp add: power2_diff abs_mult)
  moreover have "0 \<le> x\<^sup>2" by simp
  moreover have "2 * u * v * cos t \<le> 2 * \<bar>u * v * cos t\<bar>"
    by (simp add: mult.assoc)
  ultimately show ?thesis by linarith
qed

lemma sin_pi_over_pos:
  fixes nv :: real
  assumes "1 < nv"
  shows "0 < sin (pi / nv)"
proof -
  have "0 < pi / nv" using assms by simp
  moreover have "pi / nv < pi" using assms by (simp add: divide_less_eq)
  ultimately show ?thesis by (rule sin_gt_zero)
qed

lemma valley_radicand_pos:
  fixes bv cv betav :: real
  assumes "0 < bv" "0 < cv" "0 < betav" "betav < pi"
  shows "0 < bv\<^sup>2 + cv\<^sup>2 - 2 * bv * cv * cos betav"
proof -
  have "cos betav < cos 0"
    using assms by (intro cos_monotone_0_pi) simp_all
  then have "cos betav < 1" by simp
  moreover have "0 < 2 * bv * cv" using assms by simp
  ultimately have "2 * bv * cv * cos betav < 2 * bv * cv * 1"
    by (simp only: mult_strict_left_mono)
  moreover have "2 * bv * cv \<le> bv\<^sup>2 + cv\<^sup>2"
    using zero_le_power2[of "bv - cv"] by (simp add: power2_diff)
  ultimately show ?thesis by linarith
qed

lemma pi_ge_3: "3 \<le> pi"
  using sin_x_le_x[of "pi / 6"] by (simp add: sin_30)

lemma cos_three_halves: "0 \<le> cos (3 / 2 :: real)" "cos (3 / 2 :: real) \<le> 1 / 2"
proof -
  have "cos (pi / 2) \<le> cos (3 / 2 :: real)"
    by (rule cos_monotone_0_pi_le) (use pi_ge_3 in simp_all)
  then show "0 \<le> cos (3 / 2 :: real)" by simp
  have "cos (3 / 2 :: real) \<le> cos (pi / 3)"
    by (rule cos_monotone_0_pi_le) (use pi_less_4 pi_ge_two in simp_all)
  then show "cos (3 / 2 :: real) \<le> 1 / 2" by (simp add: cos_60)
qed

section \<open>The order of the comparisons\<close>






section \<open>Instances with valid parameters\<close>

text \<open>The lemmas of this section evaluate instances in the exact arithmetic of the
  model. They serve the concrete instances of the theorems below.\<close>

lemma valid_derived:
  assumes sync: "derivedInSync m"
    and flds: "n m = Num nv" "a m = Num av" "b m = Num bv" "c m = Num cv"
              "beta m = Num betav" "EA m = Num EAv"
    and rng: "1 < nv" "0 < bv" "0 < cv" "0 < betav" "betav < pi"
  shows "d m = Num (sqrt (bv\<^sup>2 + cv\<^sup>2 - 2 * bv * cv * cos betav))"
    and "r m = Num (av / (2 * sin (pi / nv)))"
    and "R m = Num (bv / (2 * sin (pi / nv)))"
    and "km m = Num (EAv / cv)"
    and "kv m = Num (EAv / sqrt (bv\<^sup>2 + cv\<^sup>2 - 2 * bv * cv * cos betav))"
proof -
  have s: "sin (pi / nv) \<noteq> 0" using sin_pi_over_pos[of nv] rng by simp
  have nz: "nv \<noteq> 0" using rng by simp
  have p: "0 < bv\<^sup>2 + cv\<^sup>2 - 2 * bv * cv * cos betav"
    using rng by (intro valley_radicand_pos) simp_all
  show dd: "d m = Num (sqrt (bv\<^sup>2 + cv\<^sup>2 - 2 * bv * cv * cos betav))"
    using sync flds p by (simp add: derivedInSync_def valleyLength_def)
  show "r m = Num (av / (2 * sin (pi / nv)))"
    using sync flds s nz by (simp add: derivedInSync_def circumradius_def jPI_def)
  show "R m = Num (bv / (2 * sin (pi / nv)))"
    using sync flds s nz by (simp add: derivedInSync_def circumradius_def jPI_def)
  show "km m = Num (EAv / cv)"
    using sync flds rng by (simp add: derivedInSync_def)
  have "kv m = jdiv (EA m) (d m)" using sync by (simp add: derivedInSync_def)
  then show "kv m = Num (EAv / sqrt (bv\<^sup>2 + cv\<^sup>2 - 2 * bv * cv * cos betav))"
    using flds p by (simp add: dd)
qed

lemma constructor_derivedInSync: "derivedInSync (constructor ps)"
  by (simp add: constructor_def derivedInSync_def Let_def)

lemma recalculate_derivedInSync: "derivedInSync (recalculate m)"
  by (simp add: recalculate_def derivedInSync_def Let_def)

lemma constructor_fields:
  "n (constructor ps) = js_or (p_n ps) (Num 6)"
  "a (constructor ps) = js_or (p_a ps) (Num 1)"
  "b (constructor ps) = js_or (p_b ps) (Num 2)"
  "c (constructor ps) = js_or (p_c ps) (Num 3)"
  "beta (constructor ps) = js_or (p_beta ps) (Num (3 / 2))"
  "EA (constructor ps) = js_or (p_EA ps) (Num 1)"
  "stableStates (constructor ps) = None"
  by (simp_all add: constructor_def Let_def)

lemma default_fields:
  "n (constructor no_params) = Num 6"
  "a (constructor no_params) = Num 1"
  "b (constructor no_params) = Num 2"
  "c (constructor no_params) = Num 3"
  "beta (constructor no_params) = Num (3 / 2)"
  "EA (constructor no_params) = Num 1"
  by (simp_all add: constructor_fields no_params_def)

lemma default_derived:
  "d (constructor no_params) = Num (sqrt (13 - 12 * cos (3 / 2)))"
  "r (constructor no_params) = Num 1"
  "R (constructor no_params) = Num 2"
  "km (constructor no_params) = Num (1 / 3)"
  "kv (constructor no_params) = Num (1 / sqrt (13 - 12 * cos (3 / 2)))"
  "0 < sqrt (13 - 12 * cos (3 / 2))"
  using valid_derived[of "constructor no_params" 6 1 2 3 "3 / 2" 1]
        valley_radicand_pos[of 2 3 "3 / 2"] pi_ge_two
  by (simp_all add: constructor_derivedInSync default_fields sin_30)

text \<open>On finite fields the floating-point expressions of \<open>computeCreaseLength\<close> and
  \<open>computeEnergy\<close> are the real formulas: no radicand is negative.\<close>

lemma energy_formula:
  assumes "r m = Num rv" "R m = Num Rv" "n m = Num nv" "nv \<noteq> 0"
    and "c m = Num cv" "d m = Num dv" "EA m = Num EAv" "cv \<noteq> 0" "dv \<noteq> 0"
    and "km m = jdiv (EA m) (c m)" "kv m = jdiv (EA m) (d m)"
  shows "cTilde (computeCreaseLength m (Num hv) (Num phiv)) =
           Num (sqrt (hv\<^sup>2 + rv\<^sup>2 + Rv\<^sup>2 - 2 * rv * Rv * cos phiv)) \<and>
         dTilde (computeCreaseLength m (Num hv) (Num phiv)) =
           Num (sqrt (hv\<^sup>2 + rv\<^sup>2 + Rv\<^sup>2 - 2 * rv * Rv * cos (phiv + 2 * pi / nv))) \<and>
         computeEnergy m (Num hv) (Num phiv) =
           Num (nv * (EAv / cv) * (sqrt (hv\<^sup>2 + rv\<^sup>2 + Rv\<^sup>2 - 2 * rv * Rv * cos phiv) - cv)\<^sup>2 / 2 +
                nv * (EAv / dv) * (sqrt (hv\<^sup>2 + rv\<^sup>2 + Rv\<^sup>2 - 2 * rv * Rv * cos (phiv + 2 * pi / nv)) - dv)\<^sup>2 / 2)"
  using assms radicand_nonneg[of hv rv Rv phiv] radicand_nonneg[of hv rv Rv "phiv + 2 * pi / nv"]
  by (simp add: computeCreaseLength_def computeEnergy_def jPI_def Let_def)


lemma default_energy_origin:
  "computeEnergy defaultModel (Num 0) (Num 0) =
     Num (4 + 3 / sqrt (13 - 12 * cos (3 / 2)) * (sqrt 3 - sqrt (13 - 12 * cos (3 / 2)))\<^sup>2)"
  using energy_formula[of "constructor no_params" 1 2 6 3 "sqrt (13 - 12 * cos (3 / 2))" 1 0 0]
        default_fields default_derived
  by (simp add: cos_60 defaultModel_def)

section \<open>The cache of stable states\<close>

lemma findStableStates_cached:
  "stableStates m = Some cached \<Longrightarrow> findStableStates m = (cached, m)"
  by (simp add: findStableStates_def)

lemma findStableStates_stores:
  "stableStates (snd (findStableStates m)) = Some (fst (findStableStates m))"
  by (cases "stableStates m") (simp_all add: findStableStates_def Let_def)

lemma findStableStates_fields:
  "(snd (findStableStates m))\<lparr>stableStates := None\<rparr> = m\<lparr>stableStates := None\<rparr>"
  by (cases "stableStates m") (simp_all add: findStableStates_def Let_def)

lemma findStableStates_twice:
  "findStableStates (snd (findStableStates m)) =
     (fst (findStableStates m), snd (findStableStates m))"
  by (rule findStableStates_cached) (rule findStableStates_stores)

lemma fresh_noop: "stableStates m = None \<Longrightarrow> m\<lparr>stableStates := None\<rparr> = m"
proof -
  assume e: "stableStates m = None"
  have "m\<lparr>stableStates := stableStates m\<rparr> = m" by simp
  then show ?thesis unfolding e .
qed

lemma findStableStates_current:
  assumes "cacheCurrent m"
  shows "fst (findStableStates m) = fst (findStableStates (m\<lparr>stableStates := None\<rparr>))"
proof (cases "stableStates m")
  case None
  then show ?thesis by (simp add: fresh_noop)
next
  case (Some cached)
  then show ?thesis
    using assms by (simp add: cacheCurrent_def findStableStates_cached)
qed

text \<open>What \<open>findStableStates\<close> computes when the cache is empty.\<close>

lemma fresh_states:
  "fst (findStableStates (m\<lparr>stableStates := None\<rparr>)) =
     (if jle (jabs (lambda m)) (Num 1) then
        \<lparr>state1 = Some \<lparr>h = jsqrt (jmax (Num 0)
                    (jadd (jsub (jsub (jpow2 (c m)) (jpow2 (r m))) (jpow2 (R m)))
                          (jmul (jmul (jmul (Num 2) (r m)) (R m))
                                (jcos (jsub (jasin (lambda m)) (jdiv jPI (n m))))))),
                   phi = jsub (jasin (lambda m)) (jdiv jPI (n m))\<rparr>,
         state2 = Some \<lparr>h = jsqrt (jmax (Num 0)
                    (jadd (jsub (jsub (jpow2 (c m)) (jpow2 (r m))) (jpow2 (R m)))
                          (jmul (jmul (jmul (Num 2) (r m)) (R m))
                                (jcos (jsub (jsub jPI (jasin (lambda m))) (jdiv jPI (n m))))))),
                   phi = jsub (jsub jPI (jasin (lambda m))) (jdiv jPI (n m))\<rparr>\<rparr>
      else \<lparr>state1 = None, state2 = None\<rparr>)"
  by (simp add: findStableStates_def Let_def lambda_def)

lemma recalculate_cache: "stableStates (recalculate m) = None"
  by (simp add: recalculate_def Let_def)

lemma updateModelParameter_geometric:
  assumes "param \<in> set [''a'', ''b'', ''c'', ''beta'', ''n'']"
  shows "updateModelParameter m param v = updateModel (recalculate (assignField m param v))"
  using assms by (simp add: updateModelParameter_def Let_def)

lemma constructor_cacheCurrent: "cacheCurrent (constructor ps)"
  by (simp add: cacheCurrent_def constructor_fields)

lemma defaultModel_cacheCurrent: "cacheCurrent defaultModel"
  by (simp add: defaultModel_def constructor_cacheCurrent)

lemma findStableStates_cacheCurrent:
  assumes "cacheCurrent m"
  shows "cacheCurrent (snd (findStableStates m))"
proof (cases "stableStates m")
  case None
  have "stableStates (snd (findStableStates m)) = Some (fst (findStableStates m))"
    by (rule findStableStates_stores)
  moreover have "(snd (findStableStates m))\<lparr>stableStates := None\<rparr> = m"
    using findStableStates_fields[of m] fresh_noop[OF None] by simp
  ultimately show ?thesis by (simp add: cacheCurrent_def)
next
  case (Some cached)
  then show ?thesis using assms by (simp add: findStableStates_cached)
qed

lemma lambda_Num:
  assumes "a m = Num av" "b m = Num bv" "c m = Num cv" "beta m = Num betav" "n m = Num nv"
    and "av \<noteq> 0" "nv \<noteq> 0"
  shows "lambda m = Num ((bv - 2 * cv * cos betav) / av * sin (pi / nv))"
  using assms by (simp add: lambda_def jPI_def)

lemma default_lambda: "lambda defaultModel = Num (1 - 3 * cos (3 / 2))"
  using lambda_Num[of "constructor no_params" 1 2 3 "3 / 2" 6] default_fields
  by (simp add: defaultModel_def sin_30 field_simps)

lemma default_bistable: "jle (jabs (lambda defaultModel)) (Num 1)"
  using cos_three_halves by (simp add: default_lambda abs_le_iff)

section \<open>Assigning the stiffness coefficient\<close>

lemma energy_ignores_EA:
  "computeEnergy (updateModelParameter m ''EA'' v) h' phi' = computeEnergy m h' phi'"
  by (cases "stableStates m")
     (simp_all add: computeEnergy_def computeCreaseLength_def updateModelParameter_def
        assignField_def updateModel_def findStableStates_def Let_def)

lemma EA_assigned: "EA (updateModelParameter m ''EA'' v) = v"
  by (cases "stableStates m")
     (simp_all add: updateModelParameter_def assignField_def updateModel_def
        findStableStates_def Let_def)

section \<open>The grid search\<close>




section \<open>The cache and the closed form\<close>

lemma closedFormStates_fresh:
  "fst (findStableStates (m\<lparr>stableStates := None\<rparr>)) = closedFormStates m"
  by (simp add: fresh_states closedFormStates_def)

lemma closedFormStates_current:
  assumes "cacheCurrent m"
  shows "fst (findStableStates m) = closedFormStates m"
  using findStableStates_current[OF assms] by (simp add: closedFormStates_fresh)

lemma jgt_not_jle: "jgt u (Num 1) \<Longrightarrow> \<not> jle u (Num 1)"
  by (cases u) (simp_all add: jgt_def)

lemma findStableStates_keeps:
  "n (snd (findStableStates m)) = n m" "a (snd (findStableStates m)) = a m"
  "b (snd (findStableStates m)) = b m" "c (snd (findStableStates m)) = c m"
  "beta (snd (findStableStates m)) = beta m" "d (snd (findStableStates m)) = d m"
  "r (snd (findStableStates m)) = r m" "R (snd (findStableStates m)) = R m"
  "EA (snd (findStableStates m)) = EA m" "km (snd (findStableStates m)) = km m"
  "kv (snd (findStableStates m)) = kv m"
  by (cases "stableStates m"; simp add: findStableStates_def Let_def)+

lemma closedFormStates_cache [simp]:
  "closedFormStates (m\<lparr>stableStates := x\<rparr>) = closedFormStates m"
  by (simp add: closedFormStates_def lambda_def)

lemma recalculate_keeps:
  "n (recalculate m) = n m" "a (recalculate m) = a m" "b (recalculate m) = b m"
  "c (recalculate m) = c m" "beta (recalculate m) = beta m" "EA (recalculate m) = EA m"
  by (simp_all add: recalculate_def Let_def)



section \<open>Stable states\<close>

text \<open>
  C1. On an instance whose cache is empty or current, with
  \<open>lambda = ((b - 2 c cos(beta)) / a) sin(pi / n)\<close> as the method computes it:
  if \<open>|lambda| <= 1\<close>, \<open>findStableStates()\<close> returns \<open>state1 = (h1, phi1)\<close> with
  \<open>phi1 = asin(lambda) - pi / n\<close> and
  \<open>h1 = sqrt(max(0, c^2 - r^2 - R^2 + 2 r R cos(phi1)))\<close>, and \<open>state2 = (h2, phi2)\<close>
  with \<open>phi2 = pi - asin(lambda) - pi / n\<close> and
  \<open>h2 = sqrt(max(0, c^2 - r^2 - R^2 + 2 r R cos(phi2)))\<close>; if \<open>|lambda| > 1\<close>, both
  states are absent. Guard and results are those of the computed \<open>lambda\<close>.
\<close>

theorem findStableStates_closed_form:
  assumes "cacheCurrent m"
  shows "lambda m =
           jmul (jdiv (jsub (b m) (jmul (jmul (Num 2) (c m)) (jcos (beta m)))) (a m))
                (jsin (jdiv jPI (n m))) \<and>
         fst (findStableStates m) =
           (if jle (jabs (lambda m)) (Num 1) then
              \<lparr>state1 = Some \<lparr>h = jsqrt (jmax (Num 0)
                          (jadd (jsub (jsub (jpow2 (c m)) (jpow2 (r m))) (jpow2 (R m)))
                                (jmul (jmul (jmul (Num 2) (r m)) (R m))
                                      (jcos (jsub (jasin (lambda m)) (jdiv jPI (n m))))))),
                         phi = jsub (jasin (lambda m)) (jdiv jPI (n m))\<rparr>,
               state2 = Some \<lparr>h = jsqrt (jmax (Num 0)
                          (jadd (jsub (jsub (jpow2 (c m)) (jpow2 (r m))) (jpow2 (R m)))
                                (jmul (jmul (jmul (Num 2) (r m)) (R m))
                                      (jcos (jsub (jsub jPI (jasin (lambda m))) (jdiv jPI (n m))))))),
                         phi = jsub (jsub jPI (jasin (lambda m))) (jdiv jPI (n m))\<rparr>\<rparr>
            else \<lparr>state1 = None, state2 = None\<rparr>) \<and>
         (jgt (jabs (lambda m)) (Num 1) \<longrightarrow>
            fst (findStableStates m) = \<lparr>state1 = None, state2 = None\<rparr>)"
proof -
  have fr: "fst (findStableStates m) = fst (findStableStates (m\<lparr>stableStates := None\<rparr>))"
    using assms by (rule findStableStates_current)
  have gt: "\<not> jle (jabs (lambda m)) (Num 1)" if "jgt (jabs (lambda m)) (Num 1)"
    using that by (rule jgt_not_jle)
  show ?thesis
    unfolding fr fresh_states using gt by (simp add: lambda_def)
qed

text \<open>The default unit: its \<open>lambda\<close> is \<open>1 - 3 cos 1.5\<close>, about 0.79, and both
  states are present.\<close>

theorem findStableStates_closed_form_witness:
  "fst (findStableStates defaultModel) =
     \<lparr>state1 = Some \<lparr>h = jsqrt (jmax (Num 0)
                 (jadd (jsub (jsub (jpow2 (c defaultModel)) (jpow2 (r defaultModel)))
                             (jpow2 (R defaultModel)))
                       (jmul (jmul (jmul (Num 2) (r defaultModel)) (R defaultModel))
                             (jcos (jsub (jasin (lambda defaultModel))
                                         (jdiv jPI (n defaultModel))))))),
                phi = jsub (jasin (lambda defaultModel)) (jdiv jPI (n defaultModel))\<rparr>,
      state2 = Some \<lparr>h = jsqrt (jmax (Num 0)
                 (jadd (jsub (jsub (jpow2 (c defaultModel)) (jpow2 (r defaultModel)))
                             (jpow2 (R defaultModel)))
                       (jmul (jmul (jmul (Num 2) (r defaultModel)) (R defaultModel))
                             (jcos (jsub (jsub jPI (jasin (lambda defaultModel)))
                                         (jdiv jPI (n defaultModel))))))),
                phi = jsub (jsub jPI (jasin (lambda defaultModel)))
                           (jdiv jPI (n defaultModel))\<rparr>\<rparr>"
  using findStableStates_closed_form[OF defaultModel_cacheCurrent] default_bistable by simp

text \<open>
  C2. For every instance, \<open>calculatePhase()\<close> returns one of the three labels
  \<open>monostable\<close>, \<open>bistable-zero-energy\<close>, \<open>bistable-nonzero-energy\<close>:
  \<open>monostable\<close> if either state returned by \<open>findStableStates()\<close> is absent or
  \<open>|lambda| > 1\<close>; otherwise \<open>bistable-zero-energy\<close> if \<open>c > cfs\<close> with
  \<open>cfs = sqrt(r^2 + R^2 + 2 r R cos(2 pi / n))\<close>, or if
  \<open>state1.phi <= pi / 2 - pi / n <= state2.phi\<close>; otherwise \<open>bistable-nonzero-energy\<close>.
\<close>

theorem calculatePhase_classification:
  "fst (calculatePhase m) =
     (let res = fst (findStableStates m);
          phi0 = jsub (jdiv jPI (Num 2)) (jdiv jPI (n m));
          cfs = jsqrt (jadd (jadd (jpow2 (r m)) (jpow2 (R m)))
                            (jmul (jmul (jmul (Num 2) (r m)) (R m))
                                  (jcos (jdiv (jmul (Num 2) jPI) (n m)))))
      in if state1 res = None \<or> state2 res = None \<or> jgt (jabs (lambda m)) (Num 1)
         then ''monostable''
         else if jgt (c m) cfs \<or>
                 jle (phi (the (state1 res))) phi0 \<and> jle phi0 (phi (the (state2 res)))
         then ''bistable-zero-energy''
         else ''bistable-nonzero-energy'') \<and>
   fst (calculatePhase m) \<in>
     {''monostable'', ''bistable-zero-energy'', ''bistable-nonzero-energy''}"
proof -
  have same: "n (snd (findStableStates m)) = n m" "r (snd (findStableStates m)) = r m"
    "R (snd (findStableStates m)) = R m" "c (snd (findStableStates m)) = c m"
    "lambda (snd (findStableStates m)) = lambda m"
    by (cases "stableStates m"; simp add: findStableStates_def Let_def lambda_def)+
  show ?thesis
    using same
    by (cases "state1 (fst (findStableStates m))"; cases "state2 (fst (findStableStates m))")
       (auto simp add: calculatePhase_def split_beta Let_def)
qed

text \<open>
  C3. \<open>findStableStates()\<close> leaves the pair it returns in the cache, and returns the
  cached pair as it is whenever the cache is filled: a second call with no parameter
  change in between returns the same pair and leaves the instance as the first call
  left it. When \<open>updateModelParameter\<close> changes one of \<open>a\<close>, \<open>b\<close>, \<open>c\<close>,
  \<open>beta\<close>, \<open>n\<close>, whatever the cache held, the cache is empty before it is next
  read; afterwards the named field has the new value, the other four are unchanged, the
  derived fields are computed from them, and the cache and the next
  \<open>findStableStates()\<close> hold the closed form of the new fields.
\<close>

theorem stable_state_cache:
  "stableStates (snd (findStableStates m)) = Some (fst (findStableStates m)) \<and>
   (\<forall>cached. stableStates m = Some cached \<longrightarrow> findStableStates m = (cached, m)) \<and>
   findStableStates (snd (findStableStates m)) =
     (fst (findStableStates m), snd (findStableStates m)) \<and>
   (param \<in> set [''a'', ''b'', ''c'', ''beta'', ''n''] \<longrightarrow>
      stableStates (recalculate (assignField m param v)) = None \<and>
      updateModelParameter m param v = updateModel (recalculate (assignField m param v)) \<and>
      n (updateModelParameter m param v) = (if param = ''n'' then v else n m) \<and>
      a (updateModelParameter m param v) = (if param = ''a'' then v else a m) \<and>
      b (updateModelParameter m param v) = (if param = ''b'' then v else b m) \<and>
      c (updateModelParameter m param v) = (if param = ''c'' then v else c m) \<and>
      beta (updateModelParameter m param v) = (if param = ''beta'' then v else beta m) \<and>
      derivedInSync (updateModelParameter m param v) \<and>
      stableStates (updateModelParameter m param v) =
        Some (closedFormStates (updateModelParameter m param v)) \<and>
      fst (findStableStates (updateModelParameter m param v)) =
        closedFormStates (updateModelParameter m param v))"
proof (intro conjI impI allI)
  show "stableStates (snd (findStableStates m)) = Some (fst (findStableStates m))"
    by (rule findStableStates_stores)
  show "findStableStates m = (cached, m)" if "stableStates m = Some cached" for cached
    using that by (rule findStableStates_cached)
  show "findStableStates (snd (findStableStates m)) =
     (fst (findStableStates m), snd (findStableStates m))"
    by (rule findStableStates_twice)
next
  assume g: "param \<in> set [''a'', ''b'', ''c'', ''beta'', ''n'']"
  define m1 where "m1 = recalculate (assignField m param v)"
  have c1: "stableStates m1 = None"
    unfolding m1_def by (rule recalculate_cache)
  have u: "updateModelParameter m param v = updateModel m1"
    unfolding m1_def using g by (rule updateModelParameter_geometric)
  have f: "(updateModel m1)\<lparr>stableStates := None\<rparr> = m1"
    using findStableStates_fields[of m1] fresh_noop[OF c1] by (simp add: updateModel_def)
  have fm: "fst (findStableStates m1) = closedFormStates m1"
    using closedFormStates_fresh[of m1] fresh_noop[OF c1] by simp
  have cf: "closedFormStates (updateModel m1) = closedFormStates m1"
    using closedFormStates_cache[where m = "updateModel m1" and x = None] f by simp
  have st: "stableStates (updateModel m1) = Some (closedFormStates m1)"
    unfolding updateModel_def using findStableStates_stores[of m1] fm by simp
  show "stableStates (recalculate (assignField m param v)) = None"
    using c1 by (simp add: m1_def)
  show "updateModelParameter m param v = updateModel (recalculate (assignField m param v))"
    using u by (simp add: m1_def)
  show "n (updateModelParameter m param v) = (if param = ''n'' then v else n m)"
    unfolding u m1_def updateModel_def
    by (simp add: findStableStates_keeps recalculate_keeps assignField_def)
  show "a (updateModelParameter m param v) = (if param = ''a'' then v else a m)"
    unfolding u m1_def updateModel_def
    by (simp add: findStableStates_keeps recalculate_keeps assignField_def)
  show "b (updateModelParameter m param v) = (if param = ''b'' then v else b m)"
    unfolding u m1_def updateModel_def
    by (simp add: findStableStates_keeps recalculate_keeps assignField_def)
  show "c (updateModelParameter m param v) = (if param = ''c'' then v else c m)"
    unfolding u m1_def updateModel_def
    by (simp add: findStableStates_keeps recalculate_keeps assignField_def)
  show "beta (updateModelParameter m param v) = (if param = ''beta'' then v else beta m)"
    unfolding u m1_def updateModel_def
    by (simp add: findStableStates_keeps recalculate_keeps assignField_def)
  have "derivedInSync m1" unfolding m1_def by (rule recalculate_derivedInSync)
  then show "derivedInSync (updateModelParameter m param v)"
    unfolding u updateModel_def by (simp add: derivedInSync_def findStableStates_keeps)
  show "stableStates (updateModelParameter m param v) =
        Some (closedFormStates (updateModelParameter m param v))"
    unfolding u using st cf by simp
  show "fst (findStableStates (updateModelParameter m param v)) =
        closedFormStates (updateModelParameter m param v)"
    unfolding u using findStableStates_cached[OF st] cf by simp
qed

text \<open>The default unit after a first call: its cache holds two states. After \<open>b\<close> is
  set to 100, \<open>lambda\<close> is above 49 and the next call returns no state.\<close>

theorem stable_state_cache_witness:
  "stableStates (snd (findStableStates defaultModel)) =
     Some (fst (findStableStates defaultModel)) \<and>
   state1 (fst (findStableStates defaultModel)) \<noteq> None \<and>
   b (updateModelParameter (snd (findStableStates defaultModel)) ''b'' (Num 100)) = Num 100 \<and>
   fst (findStableStates
         (updateModelParameter (snd (findStableStates defaultModel)) ''b'' (Num 100))) =
     \<lparr>state1 = None, state2 = None\<rparr>"
proof -
  define m0 where "m0 = snd (findStableStates defaultModel)"
  define m2 where "m2 = updateModelParameter m0 ''b'' (Num 100)"
  have g: "''b'' \<in> set [''a'', ''b'', ''c'', ''beta'', ''n'']" by simp
  have filled: "stableStates m0 = Some (fst (findStableStates defaultModel))"
    unfolding m0_def using stable_state_cache[of defaultModel] by blast
  have "fst (findStableStates defaultModel) = closedFormStates defaultModel"
    using defaultModel_cacheCurrent by (rule closedFormStates_current)
  then have one: "state1 (fst (findStableStates defaultModel)) \<noteq> None"
    using default_bistable by (simp add: closedFormStates_def)
  have f0: "a m0 = Num 1" "b m0 = Num 2" "c m0 = Num 3" "beta m0 = Num (3 / 2)" "n m0 = Num 6"
    unfolding m0_def using default_fields
    by (simp_all add: findStableStates_keeps defaultModel_def)
  from stable_state_cache[of m0 "''b''" "Num 100"] g
  have upd: "n m2 = (if ''b'' = ''n'' then Num 100 else n m0)"
    "a m2 = (if ''b'' = ''a'' then Num 100 else a m0)"
    "b m2 = (if ''b'' = ''b'' then Num 100 else b m0)"
    "c m2 = (if ''b'' = ''c'' then Num 100 else c m0)"
    "beta m2 = (if ''b'' = ''beta'' then Num 100 else beta m0)"
    "fst (findStableStates m2) = closedFormStates m2"
    unfolding m2_def by blast+
  have f: "a m2 = Num 1" "b m2 = Num 100" "c m2 = Num 3" "beta m2 = Num (3 / 2)" "n m2 = Num 6"
    using upd(1-5) f0 by simp_all
  have l: "lambda m2 = Num ((100 - 2 * 3 * cos (3 / 2)) / 1 * sin (pi / 6))"
    using f by (intro lambda_Num) simp_all
  have big: "\<not> jle (jabs (lambda m2)) (Num 1)"
    using cos_three_halves by (simp add: l sin_30)
  have two: "fst (findStableStates m2) = \<lparr>state1 = None, state2 = None\<rparr>"
    using upd(6) big by (simp add: closedFormStates_def)
  show ?thesis
    using filled one f(2) two unfolding m0_def m2_def by simp
qed

section \<open>Equilibrium twist angle\<close>




section \<open>Crease lengths and energy\<close>



text \<open>
  C7, as stated, fails. On the default unit (\<open>n = 6\<close>, \<open>c = 3\<close>, \<open>r = 1\<close>, \<open>R = 2\<close>,
  \<open>d = sqrt(13 - 12 cos 1.5)\<close>, \<open>EA = 1\<close>), after \<open>EA\<close> is assigned 2, the energy at
  \<open>h = 0\<close>, \<open>phi = 0\<close> is not \<open>n (EA / c) (cTilde - c)^2 / 2 + n (EA / d) (dTilde - d)^2 / 2\<close>
  taken with \<open>EA = 2\<close>: it is still the value for \<open>EA = 1\<close>.
\<close>

theorem energy_after_EA_assignment_counterexample:
  "EA (updateModelParameter defaultModel ''EA'' (Num 2)) = Num 2 \<and>
   computeEnergy (updateModelParameter defaultModel ''EA'' (Num 2)) (Num 0) (Num 0) \<noteq>
     Num (6 * (2 / 3) * (sqrt (0\<^sup>2 + 1\<^sup>2 + 2\<^sup>2 - 2 * 1 * 2 * cos 0) - 3)\<^sup>2 / 2 +
          6 * (2 / sqrt (13 - 12 * cos (3 / 2))) *
            (sqrt (0\<^sup>2 + 1\<^sup>2 + 2\<^sup>2 - 2 * 1 * 2 * cos (0 + 2 * pi / 6)) -
             sqrt (13 - 12 * cos (3 / 2)))\<^sup>2 / 2)"
proof -
  define dv where "dv = sqrt (13 - 12 * cos (3 / 2))"
  define x where "x = (sqrt 3 - dv)\<^sup>2 / dv"
  have dpos: "0 < dv" unfolding dv_def by (rule default_derived)
  have x0: "0 \<le> x" unfolding x_def using dpos by simp
  have lhs: "computeEnergy (updateModelParameter defaultModel ''EA'' (Num 2)) (Num 0) (Num 0) =
      Num (4 + 3 * x)"
    by (simp add: energy_ignores_EA default_energy_origin dv_def[symmetric] x_def)
  have rhs: "6 * (2 / 3) * (sqrt (0\<^sup>2 + 1\<^sup>2 + 2\<^sup>2 - 2 * 1 * 2 * cos 0) - 3)\<^sup>2 / 2 +
          6 * (2 / dv) * (sqrt (0\<^sup>2 + 1\<^sup>2 + 2\<^sup>2 - 2 * 1 * 2 * cos (0 + 2 * pi / 6)) - dv)\<^sup>2 / 2
        = 8 + 6 * x"
    by (simp add: cos_60 x_def)
  have "4 + 3 * x \<noteq> 8 + 6 * x" using x0 by simp
  then show ?thesis
    unfolding dv_def[symmetric] lhs rhs by (simp add: EA_assigned)
qed

text \<open>
  C7, amended. \<open>computeEnergy(h, phi)\<close> reads the stored fields \<open>km\<close> and \<open>kv\<close>.
  Assigning \<open>EA\<close> alone, directly or through \<open>updateModelParameter\<close>, leaves \<open>km\<close>
  and \<open>kv\<close> as they were, so every \<open>computeEnergy(h, phi)\<close> returns the same value
  as before the assignment. The new \<open>EA\<close> enters the stiffnesses when the derived
  fields are recalculated: then \<open>km = EA / c\<close> and \<open>kv = EA / d\<close> with the new \<open>EA\<close>.
\<close>

theorem energy_after_EA_assignment:
  "computeEnergy (m\<lparr>EA := v\<rparr>) h' phi' = computeEnergy m h' phi' \<and>
   computeEnergy (updateModelParameter m ''EA'' v) h' phi' = computeEnergy m h' phi' \<and>
   EA (updateModelParameter m ''EA'' v) = v \<and>
   km (updateModelParameter m ''EA'' v) = km m \<and>
   kv (updateModelParameter m ''EA'' v) = kv m \<and>
   km (recalculate (m\<lparr>EA := v\<rparr>)) = jdiv v (c m) \<and>
   kv (recalculate (m\<lparr>EA := v\<rparr>)) = jdiv v (valleyLength (b m) (c m) (beta m))"
proof -
  have direct: "computeEnergy (m\<lparr>EA := v\<rparr>) h' phi' = computeEnergy m h' phi'"
    by (simp add: computeEnergy_def computeCreaseLength_def)
  have stale: "km (updateModelParameter m ''EA'' v) = km m"
    "kv (updateModelParameter m ''EA'' v) = kv m"
    by (cases "stableStates m";
        simp add: updateModelParameter_def assignField_def updateModel_def
          findStableStates_def Let_def)+
  have later: "km (recalculate (m\<lparr>EA := v\<rparr>)) = jdiv v (c m)"
    "kv (recalculate (m\<lparr>EA := v\<rparr>)) = jdiv v (valleyLength (b m) (c m) (beta m))"
    by (simp_all add: recalculate_def Let_def)
  show ?thesis
    using direct stale later by (simp add: energy_ignores_EA EA_assigned)
qed

section \<open>Construction\<close>



section \<open>Bistability\<close>

text \<open>
  C9. On an instance whose cache is empty or current, \<open>findStableStates()\<close> returns
  both states or neither, never exactly one, and \<open>isBistable()\<close> returns true exactly
  when \<open>|lambda| <= 1\<close>.
\<close>

theorem stable_states_both_or_neither:
  assumes "cacheCurrent m"
  shows "(state1 (fst (findStableStates m)) = None \<longleftrightarrow>
          state2 (fst (findStableStates m)) = None) \<and>
         (fst (isBistable m) \<longleftrightarrow> jle (jabs (lambda m)) (Num 1))"
proof -
  have "fst (findStableStates m) = fst (findStableStates (m\<lparr>stableStates := None\<rparr>))"
    using assms by (rule findStableStates_current)
  then show ?thesis
    by (simp add: isBistable_def split_beta fresh_states)
qed

theorem stable_states_both_or_neither_witness:
  "(state1 (fst (findStableStates defaultModel)) = None \<longleftrightarrow>
    state2 (fst (findStableStates defaultModel)) = None) \<and>
   (fst (isBistable defaultModel) \<longleftrightarrow> jle (jabs (lambda defaultModel)) (Num 1))"
  by (rule stable_states_both_or_neither) (rule defaultModel_cacheCurrent)

section \<open>Defaults of the constructor\<close>

text \<open>
  C10. For each of \<open>n\<close>, \<open>a\<close>, \<open>b\<close>, \<open>c\<close>, \<open>beta\<close>, \<open>EA\<close>, the constructor keeps a
  supplied value that is truthy and substitutes the default (6, 1, 2, 3, 1.5, 1) for
  one that is falsy; zero and \<open>NaN\<close> are falsy. A unit constructed with \<open>EA = 0\<close> has
  \<open>EA = 1\<close>, and one constructed with \<open>n = 0\<close> or \<open>n = NaN\<close> is the unit constructed
  with no \<open>n\<close>: it has \<open>n = 6\<close>.
\<close>

theorem constructor_replaces_falsy:
  "n (constructor (ps\<lparr>p_n := Some v\<rparr>)) = (if truthy v then v else Num 6) \<and>
   a (constructor (ps\<lparr>p_a := Some v\<rparr>)) = (if truthy v then v else Num 1) \<and>
   b (constructor (ps\<lparr>p_b := Some v\<rparr>)) = (if truthy v then v else Num 2) \<and>
   c (constructor (ps\<lparr>p_c := Some v\<rparr>)) = (if truthy v then v else Num 3) \<and>
   beta (constructor (ps\<lparr>p_beta := Some v\<rparr>)) = (if truthy v then v else Num (3 / 2)) \<and>
   EA (constructor (ps\<lparr>p_EA := Some v\<rparr>)) = (if truthy v then v else Num 1) \<and>
   \<not> truthy (Num 0) \<and> \<not> truthy NaN \<and>
   EA (constructor (ps\<lparr>p_EA := Some (Num 0)\<rparr>)) = Num 1 \<and>
   n (constructor (ps\<lparr>p_n := Some (Num 0)\<rparr>)) = Num 6 \<and>
   constructor (ps\<lparr>p_n := Some (Num 0)\<rparr>) = constructor (ps\<lparr>p_n := None\<rparr>) \<and>
   constructor (ps\<lparr>p_n := Some NaN\<rparr>) = constructor (ps\<lparr>p_n := None\<rparr>)"
proof -
  have keep: "js_or (Some v) dflt = (if truthy v then v else dflt)" for dflt
    by simp
  have same: "constructor (ps\<lparr>p_n := Some (Num 0)\<rparr>) = constructor (ps\<lparr>p_n := None\<rparr>)"
    "constructor (ps\<lparr>p_n := Some NaN\<rparr>) = constructor (ps\<lparr>p_n := None\<rparr>)"
    by (simp_all add: constructor_def)
  show ?thesis
    using same by (simp add: constructor_fields keep)
qed

end
